theory Spec2Isabelle
  imports Main "HOL-Library.Word"
begin

section \<open>JavaScript strings\<close>

text \<open>
  A JavaScript string is a sequence of UTF-16 code units, and \<open>length\<close>, \<open>slice\<close>,
  \<open>startsWith\<close>, \<open>endsWith\<close>, \<open>repeat\<close>, \<open>split\<close> and indexing all count code units.
  A string is modelled as a list with one element for each code unit. The operations that
  never look at a code unit are polymorphic in it; where the code inspects characters
  (\<open>@\<close>, digits, \<open>+\<close>, the unreserved set of \<open>encodeURIComponent\<close>) the element type is
  \<open>char\<close>, which covers the code units U+0000 to U+00FF.

  The numbers passed as counts and lengths are modelled as \<open>int\<close>: the integer-valued
  JavaScript numbers.
\<close>

definition clamp_index :: "nat \<Rightarrow> int \<Rightarrow> nat" where
  \<comment> \<open>the relative index of \<open>String.prototype.slice\<close>: a negative index counts from the
      end, and the result is clamped to \<open>0 .. len\<close>; \<open>-0\<close> is \<open>0\<close>\<close>
  "clamp_index len i = (if i < 0 then nat (max (int len + i) 0) else min (nat i) len)"

definition slice2 :: "'a list \<Rightarrow> int \<Rightarrow> int \<Rightarrow> 'a list" where
  \<comment> \<open>\<open>s.slice(from, to)\<close>\<close>
  "slice2 s from to =
     (let a = clamp_index (length s) from; b = clamp_index (length s) to
      in take (b - a) (drop a s))"

definition slice1 :: "'a list \<Rightarrow> int \<Rightarrow> 'a list" where
  \<comment> \<open>\<open>s.slice(from)\<close>: the end defaults to the length\<close>
  "slice1 s from = drop (clamp_index (length s) from) s"

definition repeat :: "'a list \<Rightarrow> int \<Rightarrow> 'a list" where
  \<comment> \<open>\<open>s.repeat(count)\<close>; every call in this program has \<open>count > 0\<close>\<close>
  "repeat s count = concat (replicate (nat count) s)"

definition startsWith :: "'a list \<Rightarrow> 'a list \<Rightarrow> bool" where
  "startsWith s p = (take (length p) s = p)"

definition endsWith :: "'a list \<Rightarrow> 'a list \<Rightarrow> bool" where
  "endsWith s p = (length p \<le> length s \<and> drop (length s - length p) s = p)"

fun join :: "'a list \<Rightarrow> 'a list list \<Rightarrow> 'a list" where
  \<comment> \<open>\<open>parts.join(sep)\<close>\<close>
  "join sep [] = []"
| "join sep [x] = x"
| "join sep (x # y # ys) = x @ sep @ join sep (y # ys)"

fun split_on :: "'a \<Rightarrow> 'a list \<Rightarrow> 'a list list" where
  \<comment> \<open>\<open>s.split(c)\<close> for a one-unit separator: every occurrence of \<open>c\<close> ends a piece\<close>
  "split_on c [] = [[]]"
| "split_on c (x # xs) =
     (if x = c then [] # split_on c xs
      else (case split_on c xs of
              [] \<Rightarrow> [[x]]
            | p # ps \<Rightarrow> (x # p) # ps))"

datatype error =
    InvalidLength     \<comment> \<open>\<open>Error('Length must be greater than or equal to ...')\<close>\<close>
  | InvalidParams     \<comment> \<open>\<open>Error('Parameters must be a non-null object and not an array.')\<close>\<close>
  | InvalidSeparator  \<comment> \<open>\<open>Error('Invalid separator for string returnType.')\<close>\<close>
  | InvalidRange      \<comment> \<open>\<open>Error('Start and end values must be non-negative.')\<close>\<close>
  | TypeError         \<comment> \<open>reading a property of \<open>undefined\<close>\<close>
  | RangeError        \<comment> \<open>\<open>new Uint8Array(length)\<close> beyond what the engine allocates\<close>
  | QuotaExceededError
      \<comment> \<open>\<open>crypto.getRandomValues\<close> on an array of more than 65536 bytes\<close>

section \<open>Obscure\<close>

text \<open>The class \<open>Obscure\<close>; the fields are \<open>_string\<close>, \<open>_start\<close>, \<open>_end\<close> and \<open>_mask\<close>.\<close>

record Obscure =
  this_string :: string
  this_start :: int
  this_end :: int
  this_mask :: string

definition or_default :: "'a option \<Rightarrow> 'a \<Rightarrow> 'a" where
  \<comment> \<open>a parameter with a default value: the default replaces \<open>undefined\<close> only\<close>
  "or_default v d = (case v of None \<Rightarrow> d | Some x \<Rightarrow> x)"

definition new_Obscure ::
  "string \<Rightarrow> int option \<Rightarrow> int option \<Rightarrow> string option \<Rightarrow> Obscure" where
  \<comment> \<open>the constructor; the field initialisers are \<open>0\<close>, \<open>0\<close> and \<open>'*'\<close>\<close>
  "new_Obscure s start end' mask' =
     \<lparr> this_string = s,
       this_start = or_default start 0,
       this_end = or_default end' 0,
       this_mask = or_default mask' ''*'' \<rparr>"

definition Obscure_obscure ::
  "Obscure \<Rightarrow> string \<Rightarrow> int option \<Rightarrow> int option \<Rightarrow> string option \<Rightarrow> error + string" where
  \<comment> \<open>the private method \<open>obscure(str, start, end, mask)\<close>\<close>
  "Obscure_obscure this str start0 end0 mask0 =
     (let start = or_default start0 (this_start this);
          end' = or_default end0 (this_end this);
          mask' = or_default mask0 (this_mask this)
      in if start < 0 \<or> end' < 0 then Inl InvalidRange
         else if int (length str) \<le> start + end' then Inr str
         else
           (let maskedPart = repeat mask' (int (length str) - start - end');
                visibleStart = slice2 str 0 start;
                visibleEnd = slice1 str (- end')
            in Inr (visibleStart @ maskedPart @ visibleEnd)))"

definition toString :: "Obscure \<Rightarrow> error + string" where
  "toString this =
     Obscure_obscure this (this_string this) (Some (this_start this)) (Some (this_end this))
       (Some (this_mask this))"

definition obscure ::
  "string \<Rightarrow> int option \<Rightarrow> int option \<Rightarrow> string option \<Rightarrow> error + string" where
  \<comment> \<open>the exported function \<open>obscure(string, start?, end?, mask?)\<close>\<close>
  "obscure s start end' mask' = toString (new_Obscure s start end' mask')"

definition js_includes :: "'a list \<Rightarrow> 'a \<Rightarrow> bool" where
  \<comment> \<open>\<open>s.includes(c)\<close> for a one-unit \<open>c\<close>\<close>
  "js_includes s c = (c \<in> set s)"

definition email :: "Obscure \<Rightarrow> error + string" where
  \<comment> \<open>\<open>const [localPart, domain] = this._string.split('@')\<close> takes the first two pieces
      of the split; a missing piece is \<open>undefined\<close>\<close>
  "email this =
     (if \<not> js_includes (this_string this) CHR ''@''
      then Obscure_obscure this (this_string this) (Some 2) (Some 2) None
      else
        (case split_on CHR ''@'' (this_string this) of
           [] \<Rightarrow> Inl TypeError
         | [localPart] \<Rightarrow>
             (case Obscure_obscure this localPart (Some 2) (Some 2) None of
                Inl e \<Rightarrow> Inl e
              | Inr maskedLocalPart \<Rightarrow> Inr (maskedLocalPart @ ''@'' @ ''undefined''))
         | localPart # domain # _ \<Rightarrow>
             (case Obscure_obscure this localPart (Some 2) (Some 2) None of
                Inl e \<Rightarrow> Inl e
              | Inr maskedLocalPart \<Rightarrow> Inr (maskedLocalPart @ ''@'' @ domain))))"

definition isDigit :: "char \<Rightarrow> bool" where
  \<comment> \<open>the class \<open>\d\<close> of a regular expression without the \<open>u\<close> flag: \<open>0\<close> to \<open>9\<close>\<close>
  "isDigit c = (c \<in> set ''0123456789'')"

definition isPhoneChar :: "char \<Rightarrow> bool" where
  \<comment> \<open>\<open>/\d/.test(char) || char === '+'\<close>, also the complement of \<open>[^\d+]\<close>\<close>
  "isPhoneChar c = (isDigit c \<or> c = CHR ''+'')"

definition normalizePhone :: "string \<Rightarrow> string" where
  \<comment> \<open>\<open>s.replace(/[^\d+]/g, '')\<close>\<close>
  "normalizePhone s = filter isPhoneChar s"

definition phoneRegex_test :: "string \<Rightarrow> bool" where
  \<comment> \<open>\<open>/^\+?[1-9]\d{1,14}$/.test(s)\<close>; when \<open>s\<close> begins with \<open>+\<close> the optional \<open>\+\<close> must
      take it, since \<open>[1-9]\<close> cannot\<close>
  "phoneRegex_test s =
     (let r = (case s of [] \<Rightarrow> [] | c # cs \<Rightarrow> if c = CHR ''+'' then cs else s)
      in case r of
           [] \<Rightarrow> False
         | d # ds \<Rightarrow>
             d \<in> set ''123456789'' \<and> 1 \<le> length ds \<and> length ds \<le> 14 \<and> list_all isDigit ds)"

definition charAt :: "string \<Rightarrow> nat \<Rightarrow> string" where
  \<comment> \<open>\<open>acc += s[i]\<close>: an index out of range reads \<open>undefined\<close>, which is appended as the
      text \<open>undefined\<close>\<close>
  "charAt s i = (if i < length s then [s ! i] else ''undefined'')"

fun phone_loop :: "string \<Rightarrow> string \<Rightarrow> nat \<Rightarrow> string \<Rightarrow> string" where
  \<comment> \<open>the \<open>for (const char of this._string)\<close> loop, with \<open>obscuredIndex\<close> and
      \<open>formattedPhone\<close> as arguments. The loop walks code points; a code point of two code
      units is neither a digit nor \<open>+\<close> and is appended whole, as its two units are here\<close>
  "phone_loop [] obscuredPhone obscuredIndex formattedPhone = formattedPhone"
| "phone_loop (c # cs) obscuredPhone obscuredIndex formattedPhone =
     (if isDigit c \<or> c = CHR ''+''
      then phone_loop cs obscuredPhone (obscuredIndex + 1)
             (formattedPhone @ charAt obscuredPhone obscuredIndex)
      else phone_loop cs obscuredPhone obscuredIndex (formattedPhone @ [c]))"

definition phone :: "Obscure \<Rightarrow> error + string" where
  "phone this =
     (let normalizedPhone = normalizePhone (this_string this)
      in if \<not> phoneRegex_test normalizedPhone
         then Obscure_obscure this (this_string this) (Some 2) (Some 2) None
         else
           (case Obscure_obscure this normalizedPhone (Some 2) (Some 2) None of
              Inl e \<Rightarrow> Inl e
            | Inr obscuredPhone \<Rightarrow> Inr (phone_loop (this_string this) obscuredPhone 0 [])))"

definition obscure_email :: "string \<Rightarrow> error + string" where
  \<comment> \<open>\<open>obscure.email(string)\<close>\<close>
  "obscure_email s = email (new_Obscure s None None None)"

definition obscure_phone :: "string \<Rightarrow> error + string" where
  \<comment> \<open>\<open>obscure.phone(string)\<close>\<close>
  "obscure_phone s = phone (new_Obscure s None None None)"

section \<open>Numbers as text\<close>

definition digit_char :: "nat \<Rightarrow> char" where
  "digit_char d = ''0123456789abcdefghijklmnopqrstuvwxyz'' ! d"

function nat_toString :: "nat \<Rightarrow> nat \<Rightarrow> string" where
  \<comment> \<open>\<open>n.toString(radix)\<close> for a non-negative integer \<open>n\<close>. JavaScript raises a RangeError
      for a radix outside \<open>2 .. 36\<close>; the program uses \<open>36\<close> and, through \<open>String(n)\<close>,
      \<open>10\<close>\<close>
  "nat_toString radix n =
     (if radix < 2 \<or> 36 < radix then []
      else if n < radix then [digit_char n]
      else nat_toString radix (n div radix) @ [digit_char (n mod radix)])"
  by pat_completeness auto
termination
  by (relation "measure (\<lambda>(radix, n). n)") auto

definition number_toString :: "int \<Rightarrow> string" where
  \<comment> \<open>\<open>String(n)\<close> for an integer-valued number below \<open>10^21\<close> in magnitude, the
      range in which \<open>String\<close> writes all the digits. From \<open>10^21\<close> on JavaScript
      writes an exponent (\<open>1e+21\<close>); that form is not modelled, and nothing below is
      stated about such a number\<close>
  "number_toString n =
     (if n < 0 then ''-'' @ nat_toString 10 (nat (- n)) else nat_toString 10 (nat n))"

definition padStart :: "string \<Rightarrow> nat \<Rightarrow> string \<Rightarrow> string" where
  \<comment> \<open>\<open>s.padStart(targetLength, padString)\<close>\<close>
  "padStart s targetLength padString =
     (if targetLength \<le> length s \<or> padString = [] then s
      else take (targetLength - length s)
             (concat (replicate (targetLength - length s) padString)) @ s)"

definition truthy :: "string option \<Rightarrow> bool" where
  \<comment> \<open>\<open>if (s)\<close> for an optional string: \<open>undefined\<close> and the empty string are falsy\<close>
  "truthy v = (case v of None \<Rightarrow> False | Some s \<Rightarrow> s \<noteq> [])"

definition or_empty :: "string option \<Rightarrow> string" where
  \<comment> \<open>\<open>v || ''\<close> for an optional string\<close>
  "or_empty v = (case v of None \<Rightarrow> [] | Some s \<Rightarrow> s)"

section \<open>generateUniqueId\<close>

text \<open>
  The ambient sources are arguments: \<open>now\<close> is the value of \<open>Date.now()\<close>, and
  \<open>rnd i\<close> is the byte that \<open>crypto.getRandomValues\<close> writes at index \<open>i\<close> of the
  \<open>Uint8Array\<close> of \<open>length\<close> elements. Two calls of the platform can fail after the
  length check: \<open>new Uint8Array(length)\<close> raises a RangeError when \<open>length\<close> is more than
  the engine allocates, a limit that depends on the engine and is the argument
  \<open>maxArrayLength\<close>; and \<open>crypto.getRandomValues\<close> raises a QuotaExceededError when the
  array has more than 65536 bytes.
\<close>

definition encode_byte :: "8 word \<Rightarrow> string" where
  \<comment> \<open>\<open>b => b.toString(36).padStart(2, '0')\<close>\<close>
  "encode_byte b = padStart (nat_toString 36 (unat b)) 2 ''0''"

definition generateUniqueId ::
  "int \<Rightarrow> nat \<Rightarrow> (nat \<Rightarrow> 8 word) \<Rightarrow> int option \<Rightarrow> string option \<Rightarrow> string option
     \<Rightarrow> error + string"
  where
  "generateUniqueId maxArrayLength now rnd length0 prefix suffix =
     (let length' = or_default length0 16;
          timestamp = nat_toString 36 now
      in if length' < int (length timestamp) then Inl InvalidLength
         else if maxArrayLength < length' then Inl RangeError
         else if 65536 < length' then Inl QuotaExceededError
         else
           (let randomBytes = map rnd [0 ..< nat length'];
                randomPart = slice2 (concat (map encode_byte randomBytes)) 0 length';
                coreId = timestamp @ randomPart;
                parts = (if truthy prefix then [or_empty prefix] else [])
                        @ [coreId]
                        @ (if truthy suffix then [or_empty suffix] else [])
            in Inr (join ''_'' parts)))"

section \<open>uuidGenerator\<close>

record UUIDGeneratorOptions =
  opt_prefix :: "string option"
  opt_suffix :: "string option"
  opt_separator :: "string option"

text \<open>
  The library \<open>@tfpkgr/uuid\<close> is not part of the repository: \<open>uuid\<close> is the value that
  the call \<open>uuid()\<close> returns, and \<open>uuid_v5\<close> is the function \<open>uuid.v5\<close>. The omitted
  \<open>options\<close> argument is the record with no field set.
\<close>

definition uuidGenerator ::
  "string \<Rightarrow> (string \<Rightarrow> string \<Rightarrow> string) \<Rightarrow> string \<Rightarrow> string \<Rightarrow> UUIDGeneratorOptions \<Rightarrow> string"
  where
  "uuidGenerator uuid uuid_v5 name namespace options =
     (let id' = uuid;
          hash = uuid_v5 name namespace;
          prefix = or_empty (opt_prefix options);
          suffix = or_empty (opt_suffix options);
          separator = or_empty (opt_separator options);
          result = [];
          result = (if prefix \<noteq> [] then result @ prefix @ separator else result);
          result = (if hash \<noteq> [] then result @ hash @ separator else result);
          result = (if id' \<noteq> [] then result @ id' @ separator else result);
          result = (if suffix \<noteq> [] then result @ suffix else result);
          result = (if endsWith result separator
                    then slice2 result 0 (- int (length separator)) else result);
          result = (if startsWith result separator
                    then slice1 result (int (length separator)) else result)
      in result)"

section \<open>stringifyParams\<close>

text \<open>
  A value of a parameter; the objects are of an arbitrary type \<open>'o\<close>, and \<open>JSON.stringify\<close>
  on them is an argument \<open>stringify\<close> of the functions below, \<open>None\<close> when it throws.
  Numbers are the integer-valued ones.
\<close>

datatype 'o js_value =
    JNull | JUndefined | JBoolean bool | JNumber int | JString string | JObject 'o

datatype 'o param_value = Scalar "'o js_value" | Array "'o js_value list"

text \<open>
  What \<open>params\<close> can be at run time: an object, given by its \<open>Object.entries\<close> in
  their order, or one of the values that \<open>validateParams\<close> rejects.
\<close>

datatype 'o params_arg =
    ParamsObject "(string \<times> 'o param_value) list"
  | ParamsNull
  | ParamsArray
  | ParamsNotObject

datatype array_type = comma | bracket | none | exclude

datatype return_type = RString | RURLSearchParams

record StringifyParamsOptions =
  separator :: "string option"
  arrayType :: "array_type option"
  serializeObjects :: "bool option"
  returnType :: "return_type option"

datatype stringify_result = OutString string | OutURLSearchParams "(string \<times> string) list"

fun normalizeValue :: "('o \<Rightarrow> string option) \<Rightarrow> 'o js_value \<Rightarrow> bool \<Rightarrow> string" where
  "normalizeValue stringify JNull allowObjects = []"
| "normalizeValue stringify JUndefined allowObjects = []"
| "normalizeValue stringify (JBoolean b) allowObjects = (if b then ''true'' else ''false'')"
| "normalizeValue stringify (JNumber n) allowObjects = number_toString n"
| "normalizeValue stringify (JString s) allowObjects = s"
| "normalizeValue stringify (JObject ob) allowObjects =
     (if allowObjects then (case stringify ob of Some s \<Rightarrow> s | None \<Rightarrow> []) else [])"

definition validateParams :: "'o params_arg \<Rightarrow> error option" where
  "validateParams params =
     (case params of ParamsObject _ \<Rightarrow> None | _ \<Rightarrow> Some InvalidParams)"

definition hex_char :: "nat \<Rightarrow> char" where
  "hex_char d = ''0123456789ABCDEF'' ! d"

definition percent :: "nat \<Rightarrow> string" where
  \<comment> \<open>one escaped byte\<close>
  "percent b = [CHR ''%'', hex_char (b div 16), hex_char (b mod 16)]"

definition uriUnreserved :: "string" where
  "uriUnreserved =
     ''ABCDEFGHIJKLMNOPQRSTUVWXYZabcdefghijklmnopqrstuvwxyz0123456789-_.!~*'' @ [CHR 0x27] @ ''()''"

definition encode_unit :: "char \<Rightarrow> string" where
  \<comment> \<open>a code unit below U+0080 is one byte of UTF-8, one from U+0080 to U+00FF is two\<close>
  "encode_unit c =
     (let n = (of_char c :: nat)
      in if c \<in> set uriUnreserved then [c]
         else if n < 128 then percent n
         else percent (192 + n div 64) @ percent (128 + n mod 64))"

definition encodeURIComponent :: "string \<Rightarrow> string" where
  "encodeURIComponent s = concat (map encode_unit s)"

definition process_entry ::
  "('o \<Rightarrow> string option) \<Rightarrow> array_type \<Rightarrow> bool \<Rightarrow> string \<times> 'o param_value
     \<Rightarrow> (string \<times> string) list" where
  \<comment> \<open>the body of the loop over the entries: the pairs that it pushes\<close>
  "process_entry stringify arrayType' serializeObjects' entry =
     (let encodedKey = encodeURIComponent (fst entry)
      in case snd entry of
           Array vs \<Rightarrow>
             if arrayType' = exclude then []
             else
               (let encodedValues =
                      map (\<lambda>val. encodeURIComponent (normalizeValue stringify val serializeObjects')) vs
                in if arrayType' = comma then [(encodedKey, join '','' encodedValues)]
                   else if arrayType' = bracket
                   then map (\<lambda>val. (encodedKey @ ''[]'', val)) encodedValues
                   else map (\<lambda>val. (encodedKey, val)) encodedValues)
         | Scalar v \<Rightarrow>
             [(encodedKey, encodeURIComponent (normalizeValue stringify v serializeObjects'))])"

fun entries_loop ::
  "('o \<Rightarrow> string option) \<Rightarrow> array_type \<Rightarrow> bool \<Rightarrow> (string \<times> 'o param_value) list
     \<Rightarrow> (string \<times> string) list \<Rightarrow> (string \<times> string) list" where
  \<comment> \<open>\<open>for (const [key, value] of Object.entries(params))\<close>, with \<open>keyValuePairs\<close> as the
      last argument\<close>
  "entries_loop stringify arrayType' serializeObjects' [] keyValuePairs = keyValuePairs"
| "entries_loop stringify arrayType' serializeObjects' (entry # entries) keyValuePairs =
     entries_loop stringify arrayType' serializeObjects' entries
       (keyValuePairs @ process_entry stringify arrayType' serializeObjects' entry)"

definition stringifyParams ::
  "('o \<Rightarrow> string option) \<Rightarrow> 'o params_arg \<Rightarrow> StringifyParamsOptions \<Rightarrow> error + stringify_result" where
  "stringifyParams stringify params options =
     (case validateParams params of
        Some e \<Rightarrow> Inl e
      | None \<Rightarrow>
          (let separator' = or_default (separator options) ''&'';
               arrayType' = or_default (arrayType options) none;
               serializeObjects' = or_default (serializeObjects options) False;
               returnType' = returnType options
           in if returnType' = Some RString
                 \<and> (length separator' = 0 \<or> js_includes separator' CHR ''='')
              then Inl InvalidSeparator
              else
                (let keyValuePairs =
                       entries_loop stringify arrayType' serializeObjects'
                         (case params of ParamsObject entries \<Rightarrow> entries | _ \<Rightarrow> []) []
                 in if returnType' = Some RURLSearchParams
                    then Inr (OutURLSearchParams keyValuePairs)
                    else Inr (OutString
                           (join separator' (map (\<lambda>(k, v). k @ ''='' @ v) keyValuePairs))))))"

section \<open>Properties of obscure\<close>

text \<open>
  Claim C9. When \<open>start\<close> and \<open>end\<close> are non-negative and \<open>start + end\<close> is at least the
  length of \<open>str\<close>, both the method \<open>Obscure.obscure\<close> and the exported function \<open>obscure\<close>
  return \<open>str\<close> itself, whatever the mask.
\<close>

theorem obscure_short_identity:
  assumes "0 \<le> start" and "0 \<le> end'" and "int (length str) \<le> start + end'"
  shows "Obscure_obscure this str (Some start) (Some end') (Some mask') = Inr str
       \<and> obscure str (Some start) (Some end') (Some mask') = Inr str"
  using assms
  by (simp add: obscure_def toString_def new_Obscure_def Obscure_obscure_def or_default_def)

theorem obscure_short_identity_witness:
  "(0::int) \<le> 2 \<and> int (length ''ab'') \<le> 2 + 2
   \<and> Obscure_obscure (new_Obscure ''ab'' None None None) ''ab'' (Some 2) (Some 2) (Some ''*'')
       = Inr ''ab''
   \<and> obscure ''ab'' (Some 2) (Some 2) (Some ''*'') = Inr ''ab''"
  using obscure_short_identity [of 2 2 "''ab''" "new_Obscure ''ab'' None None None" "''*''"]
  by simp

subsection \<open>The masked case\<close>

text \<open>
  What the method computes when the string is longer than \<open>start + end\<close>. The visible end
  is \<open>str.slice(-end)\<close>; for \<open>end = 0\<close> that is \<open>str.slice(0)\<close>, the whole string.
\<close>

lemma slice2_prefix: "0 \<le> a \<Longrightarrow> slice2 s 0 a = take (nat a) s"
  by (simp add: slice2_def clamp_index_def min_def)

lemma slice1_negative:
  "0 < b \<Longrightarrow> b \<le> int (length s) \<Longrightarrow> slice1 s (- b) = drop (length s - nat b) s"
  by (simp add: slice1_def clamp_index_def max_def) (smt (verit) nat_diff_distrib nat_int int_nat_eq)

lemma slice1_zero: "slice1 s 0 = s"
  by (simp add: slice1_def clamp_index_def)

lemma Obscure_obscure_masked:
  assumes "0 \<le> start" and "0 \<le> end'" and "start + end' < int (length str)"
  shows "Obscure_obscure this str (Some start) (Some end') (Some m) =
           Inr (take (nat start) str
                @ concat (replicate (length str - nat start - nat end') m)
                @ (if end' = 0 then str else drop (length str - nat end') str))"
proof -
  have n: "nat (int (length str) - start - end') = length str - nat start - nat end'"
    using assms by linarith
  show ?thesis
  proof (cases "end' = 0")
    case True
    then show ?thesis using assms n
      by (simp add: Obscure_obscure_def or_default_def repeat_def slice2_prefix slice1_zero)
  next
    case False
    then have "0 < end'" "end' \<le> int (length str)" using assms by linarith+
    then show ?thesis using assms n False
      by (simp add: Obscure_obscure_def or_default_def repeat_def slice2_prefix slice1_negative)
  qed
qed

lemma length_concat_replicate: "length (concat (replicate n m)) = n * length m"
  by (induction n) simp_all

lemma Obscure_obscure_masked_length:
  assumes "0 \<le> start" and "0 < end'" and "start + end' < int (length str)"
    and "Obscure_obscure this str (Some start) (Some end') (Some m) = Inr r"
  shows "int (length r) = start + end' + int (length m) * (int (length str) - start - end')"
proof -
  have n: "int (length str - nat start - nat end') = int (length str) - start - end'"
    using assms by linarith
  have r: "r = take (nat start) str
                @ concat (replicate (length str - nat start - nat end') m)
                @ drop (length str - nat end') str"
    using assms Obscure_obscure_masked [of start end' str this m] by simp
  have "int (length r) = int (min (length str) (nat start)) + int ((length str - nat start - nat end') * length m) + int (length str - (length str - nat end'))"
    unfolding r by (simp add: length_concat_replicate)
  also have "min (length str) (nat start) = nat start" using assms by linarith
  also have "int (length str - (length str - nat end')) = end'" using assms by linarith
  also have "int ((length str - nat start - nat end') * length m)
               = (int (length str) - start - end') * int (length m)"
    unfolding of_nat_mult n ..
  finally show ?thesis using assms by (simp add: algebra_simps)
qed

text \<open>
  Claim C2. For \<open>len(str) > start + end\<close> the result is to be the first \<open>start\<close> characters,
  the mask repeated \<open>len(str) - start - end\<close> times and the last \<open>end\<close> characters, also
  for \<open>end = 0\<close>, where the result is to be as long as \<open>str\<close>. The code does so for
  \<open>end > 0\<close> (lemma \<open>Obscure_obscure_masked\<close>); for \<open>end = 0\<close> it appends the whole
  string after the mask: \<open>obscure('abcdef', 2, 0, '*')\<close> is \<open>ab****abcdef\<close>, of length 12,
  where the claim gives \<open>ab****\<close>.
\<close>

theorem obscure_end_zero_appends_whole:
  "obscure ''abcdef'' (Some 2) (Some 0) (Some ''*'') = Inr ''ab****abcdef''"
  by code_simp

text \<open>
  Claim C10. The mask is used as it is given, and for \<open>len(str) > start + end\<close> the length
  of the result is to be \<open>start + end + len(m) * (len(str) - start - end)\<close>. The code has
  that length for \<open>end > 0\<close> (lemma \<open>Obscure_obscure_masked_length\<close>); for \<open>end = 0\<close>
  the whole string follows the mask: \<open>obscure('abcdef', 2, 0, 'xy')\<close> has length 16, where
  the claim gives \<open>2 + 0 + 2 * 4 = 10\<close>.
\<close>

theorem obscure_mask_length_end_zero:
  "obscure ''abcdef'' (Some 2) (Some 0) (Some ''xy'') = Inr ''abxyxyxyxyabcdef''
   \<and> length ''abxyxyxyxyabcdef'' = 16"
  by code_simp

section \<open>Properties of obscure.phone\<close>

lemma Obscure_obscure_star_length:
  "\<exists>ob. Obscure_obscure (new_Obscure s None None None) n (Some 2) (Some 2) None = Inr ob
        \<and> length ob = length n"
proof (cases "int (length n) \<le> 2 + 2")
  case True
  then show ?thesis
    by (simp add: Obscure_obscure_def or_default_def new_Obscure_def)
next
  case False
  let ?o = "new_Obscure s None None None"
  have d: "Obscure_obscure ?o n (Some 2) (Some 2) None
             = Obscure_obscure ?o n (Some 2) (Some 2) (Some ''*'')"
    by (simp add: Obscure_obscure_def or_default_def new_Obscure_def)
  have "Obscure_obscure ?o n (Some 2) (Some 2) (Some ''*'') =
          Inr (take (nat 2) n @ concat (replicate (length n - nat 2 - nat 2) ''*'')
               @ (if (2::int) = 0 then n else drop (length n - nat 2) n))"
    using False by (intro Obscure_obscure_masked) simp_all
  then show ?thesis using False
    by (simp add: d length_concat_replicate)
qed

lemma phone_loop_acc:
  "phone_loop cs ob i acc = acc @ phone_loop cs ob i []"
proof (induction cs arbitrary: i acc)
  case Nil
  show ?case by simp
next
  case (Cons c cs)
  show ?case
  proof (cases "isDigit c \<or> c = CHR ''+''")
    case True
    have "phone_loop (c # cs) ob i acc = (acc @ charAt ob i) @ phone_loop cs ob (i + 1) []"
      using True Cons.IH [of "i + 1" "acc @ charAt ob i"] by simp
    moreover have "phone_loop (c # cs) ob i [] = charAt ob i @ phone_loop cs ob (i + 1) []"
      using True Cons.IH [of "i + 1" "charAt ob i"] by simp
    ultimately show ?thesis by simp
  next
    case False
    have "phone_loop (c # cs) ob i acc = (acc @ [c]) @ phone_loop cs ob i []"
      using False Cons.IH [of i "acc @ [c]"] by simp
    moreover have "phone_loop (c # cs) ob i [] = [c] @ phone_loop cs ob i []"
      using False Cons.IH [of i "[c]"] by simp
    ultimately show ?thesis by simp
  qed
qed

lemma phone_loop_Cons:
  "phone_loop (c # cs) ob i [] =
     (if isPhoneChar c then charAt ob i @ phone_loop cs ob (Suc i) []
      else c # phone_loop cs ob i [])"
  using phone_loop_acc [of cs ob "Suc i" "charAt ob i"] phone_loop_acc [of cs ob i "[c]"]
  by (simp add: isPhoneChar_def)

lemma phone_loop_length:
  "i + length (filter isPhoneChar cs) \<le> length ob
   \<Longrightarrow> length (phone_loop cs ob i []) = length cs"
proof (induction cs arbitrary: i)
  case Nil
  show ?case by simp
next
  case (Cons c cs)
  show ?case
  proof (cases "isPhoneChar c")
    case True
    with Cons.prems have "Suc i + length (filter isPhoneChar cs) \<le> length ob" "i < length ob"
      by simp_all
    with Cons.IH [of "Suc i"] True show ?thesis
      by (simp add: phone_loop_Cons charAt_def del: phone_loop.simps)
  next
    case False
    with Cons.prems Cons.IH [of i] show ?thesis
      by (simp add: phone_loop_Cons del: phone_loop.simps)
  qed
qed

lemma phone_loop_nth:
  "i + length (filter isPhoneChar cs) \<le> length ob \<Longrightarrow> k < length cs
   \<Longrightarrow> phone_loop cs ob i [] ! k =
         (if isPhoneChar (cs ! k) then ob ! (i + length (filter isPhoneChar (take k cs)))
          else cs ! k)"
proof (induction cs arbitrary: i k)
  case Nil
  then show ?case by simp
next
  case (Cons c cs)
  show ?case
  proof (cases "isPhoneChar c")
    case True
    with Cons.prems have le: "Suc i + length (filter isPhoneChar cs) \<le> length ob"
      and i: "i < length ob"
      by simp_all
    show ?thesis
    proof (cases k)
      case 0
      then show ?thesis using True i by (simp add: phone_loop_Cons charAt_def del: phone_loop.simps)
    next
      case (Suc k')
      then have "k' < length cs" using Cons.prems by simp
      from Cons.IH [OF le this] show ?thesis
        using True i Suc by (simp add: phone_loop_Cons charAt_def del: phone_loop.simps)
    qed
  next
    case False
    with Cons.prems have le: "i + length (filter isPhoneChar cs) \<le> length ob"
      by simp
    show ?thesis
    proof (cases k)
      case 0
      then show ?thesis using False by (simp add: phone_loop_Cons del: phone_loop.simps)
    next
      case (Suc k')
      then have "k' < length cs" using Cons.prems by simp
      from Cons.IH [OF le this] show ?thesis
        using False Suc by (simp add: phone_loop_Cons del: phone_loop.simps)
    qed
  qed
qed

text \<open>
  Claim C7. When the normalised input matches the pattern of phone numbers, \<open>obscure.phone\<close>
  returns a string as long as the input; a character that is neither a digit nor \<open>+\<close>
  stays where it was, and the \<open>k\<close>-th digit or \<open>+\<close> of the input (counting from 0) is
  replaced by the \<open>k\<close>-th character of \<open>obscure(normalized, 2, 2)\<close>.
\<close>

theorem obscure_phone_layout:
  assumes "phoneRegex_test (normalizePhone s)"
  shows "\<exists>ob out.
           obscure (normalizePhone s) (Some 2) (Some 2) None = Inr ob
         \<and> obscure_phone s = Inr out
         \<and> length out = length s
         \<and> (\<forall>i < length s.
               out ! i = (if isPhoneChar (s ! i)
                          then ob ! length (filter isPhoneChar (take i s))
                          else s ! i))"
proof -
  let ?o = "new_Obscure s None None None"
  obtain ob where ob: "Obscure_obscure ?o (normalizePhone s) (Some 2) (Some 2) None = Inr ob"
    and len: "length ob = length (normalizePhone s)"
    using Obscure_obscure_star_length by blast
  have g: "obscure (normalizePhone s) (Some 2) (Some 2) None = Inr ob"
    using ob
    by (simp add: obscure_def toString_def new_Obscure_def Obscure_obscure_def or_default_def)
  have p: "obscure_phone s = Inr (phone_loop s ob 0 [])"
    using assms ob by (simp add: obscure_phone_def phone_def new_Obscure_def)
  have le: "0 + length (filter isPhoneChar s) \<le> length ob"
    using len by (simp add: normalizePhone_def)
  have "length (phone_loop s ob 0 []) = length s"
    using le by (rule phone_loop_length)
  moreover have "\<forall>i < length s.
      phone_loop s ob 0 [] ! i = (if isPhoneChar (s ! i)
                                  then ob ! length (filter isPhoneChar (take i s))
                                  else s ! i)"
    using phone_loop_nth [OF le] by simp
  ultimately show ?thesis using g p by blast
qed

theorem obscure_phone_layout_witness:
  "phoneRegex_test (normalizePhone ''+1 (234) 567-890'')
   \<and> obscure_phone ''+1 (234) 567-890'' = Inr ''+1 (***) ***-*90''
   \<and> (\<exists>ob out.
           obscure (normalizePhone ''+1 (234) 567-890'') (Some 2) (Some 2) None = Inr ob
         \<and> obscure_phone ''+1 (234) 567-890'' = Inr out
         \<and> length out = length ''+1 (234) 567-890''
         \<and> (\<forall>i < length ''+1 (234) 567-890''.
               out ! i = (if isPhoneChar (''+1 (234) 567-890'' ! i)
                          then ob ! length (filter isPhoneChar (take i ''+1 (234) 567-890''))
                          else ''+1 (234) 567-890'' ! i)))"
proof -
  have h: "phoneRegex_test (normalizePhone ''+1 (234) 567-890'')"
    by code_simp
  have v: "obscure_phone ''+1 (234) 567-890'' = Inr ''+1 (***) ***-*90''"
    by code_simp
  from obscure_phone_layout [OF h] h v show ?thesis
    by blast
qed

section \<open>Properties of obscure.email\<close>

text \<open>
  Without \<open>@\<close> the input is masked as a whole. With \<open>@\<close>, the local part is what precedes
  the first \<open>@\<close>, and the domain is the second piece of \<open>split('@')\<close>: what lies between
  the first \<open>@\<close> and the second one, or the end of the string when there is no second.
\<close>

lemma split_on_first: "c \<notin> set l \<Longrightarrow> split_on c (l @ c # r) = l # split_on c r"
  by (induction l) auto

lemma split_on_head: "\<exists>ps. split_on c r = takeWhile (\<lambda>x. x \<noteq> c) r # ps"
  by (induction r) (auto split: list.splits)

lemma email_without_at:
  "CHR ''@'' \<notin> set s \<Longrightarrow> obscure_email s = obscure s (Some 2) (Some 2) None"
  by (simp add: obscure_email_def email_def js_includes_def obscure_def toString_def
      new_Obscure_def Obscure_obscure_def or_default_def)

lemma email_with_at:
  assumes "CHR ''@'' \<notin> set l"
  shows "obscure_email (l @ CHR ''@'' # r) =
           (case obscure l (Some 2) (Some 2) None of
              Inl e \<Rightarrow> Inl e
            | Inr m \<Rightarrow> Inr (m @ ''@'' @ takeWhile (\<lambda>x. x \<noteq> CHR ''@'') r))"
proof -
  obtain ps where ps: "split_on CHR ''@'' r = takeWhile (\<lambda>x. x \<noteq> CHR ''@'') r # ps"
    using split_on_head [of "CHR ''@''" r] by blast
  have sp: "split_on CHR ''@'' (l @ CHR ''@'' # r) = l # takeWhile (\<lambda>x. x \<noteq> CHR ''@'') r # ps"
    using assms ps by (simp add: split_on_first)
  have ob: "Obscure_obscure (new_Obscure (l @ CHR ''@'' # r) None None None) l (Some 2) (Some 2) None
           = obscure l (Some 2) (Some 2) None"
    by (simp add: obscure_def toString_def new_Obscure_def Obscure_obscure_def or_default_def)
  have st: "this_string (new_Obscure (l @ CHR ''@'' # r) None None None) = l @ CHR ''@'' # r"
    by (simp add: new_Obscure_def)
  show ?thesis
    unfolding obscure_email_def email_def st
    by (simp add: js_includes_def sp ob)
qed

text \<open>
  Claim C4. The domain is to be everything after the first \<open>@\<close>, kept verbatim. The code
  does so for an input with one \<open>@\<close> (lemma \<open>email_with_at\<close>, where \<open>takeWhile\<close> then
  returns all of \<open>r\<close>); with a second \<open>@\<close> it drops that \<open>@\<close> and all that follows:
  \<open>obscure.email('alice@a.io@b')\<close> is \<open>al*ce@a.io\<close>, where the claim gives \<open>al*ce@a.io@b\<close>.
\<close>

theorem obscure_email_drops_after_second_at:
  "obscure_email ''alice@a.io@b'' = Inr ''al*ce@a.io''"
  by code_simp

section \<open>Properties of uuidGenerator\<close>

text \<open>
  With a non-empty separator the function returns the join of the non-empty components,
  provided that the join neither starts nor ends with the separator: the two trims remove
  a separator from either end of the assembled string, also one that belongs to the first
  component or to the suffix.
\<close>

lemma endsWith_append_self: "endsWith (x @ sep) sep"
  by (simp add: endsWith_def)

lemma slice2_strip_suffix: "sep \<noteq> [] \<Longrightarrow> slice2 (x @ sep) 0 (- int (length sep)) = x"
  by (simp add: slice2_def clamp_index_def)

lemma uuidGenerator_join:
  assumes sep: "or_empty (opt_separator options) = sep" "sep \<noteq> []"
    and j: "j = join sep (filter (\<lambda>c. c \<noteq> [])
                 [or_empty (opt_prefix options), uuid_v5 name namespace, uuid,
                  or_empty (opt_suffix options)])"
    and ns: "\<not> startsWith j sep" and ne: "\<not> endsWith j sep"
  shows "uuidGenerator uuid uuid_v5 name namespace options = j"
proof -
  let ?p = "or_empty (opt_prefix options)" and ?h = "uuid_v5 name namespace"
  let ?s = "or_empty (opt_suffix options)"
  let ?r0 = "(if ?p \<noteq> [] then ?p @ sep else []) @ (if ?h \<noteq> [] then ?h @ sep else [])
             @ (if uuid \<noteq> [] then uuid @ sep else [])"
  have u: "uuidGenerator uuid uuid_v5 name namespace options =
             (let result = ?r0 @ ?s;
                  result = (if endsWith result sep
                            then slice2 result 0 (- int (length sep)) else result)
              in if startsWith result sep then slice1 result (int (length sep)) else result)"
    by (simp add: uuidGenerator_def sep Let_def)
  show ?thesis
  proof (cases "?s = []")
    case False
    then have "?r0 @ ?s = j" unfolding j by simp
    then show ?thesis unfolding u using ns ne by (simp add: Let_def)
  next
    case True
    show ?thesis
    proof (cases "?p = [] \<and> ?h = [] \<and> uuid = []")
      case True
      then have "j = []" "?r0 @ ?s = []" using \<open>?s = []\<close> unfolding j by simp_all
      then show ?thesis unfolding u using ns ne by (simp add: Let_def)
    next
      case False
      then have "?r0 @ ?s = j @ sep" using True unfolding j by auto
      then show ?thesis unfolding u using ns sep
        by (simp add: Let_def endsWith_append_self slice2_strip_suffix)
    qed
  qed
qed

text \<open>
  Claim C1. The components are to be joined by the separator, and with the default empty
  separator and no prefix or suffix the result is to be the hash followed by the id. In
  the code the empty separator makes \<open>result.endsWith(separator)\<close> true and
  \<open>result.slice(0, -separator.length)\<close> the slice \<open>slice(0, -0)\<close>, which is empty: with
  the default separator the function returns the empty string, whatever the prefix, the
  hash, the id and the suffix are.
\<close>

theorem uuidGenerator_default_separator_empty:
  "uuidGenerator uuid uuid_v5 name namespace
     \<lparr>opt_prefix = p, opt_suffix = s, opt_separator = None\<rparr> = []"
  by (simp add: uuidGenerator_def or_empty_def endsWith_def startsWith_def slice2_def
      slice1_def clamp_index_def Let_def)

section \<open>Properties of generateUniqueId\<close>

text \<open>
  \<open>nat_toString 36\<close> writes a number with as many digits as its size requires, and a byte
  becomes its two base-36 digits, the first one \<open>0\<close> for a byte below 36.
\<close>

lemma nat_toString36_small: "n < 36 \<Longrightarrow> nat_toString 36 n = [digit_char n]"
  by (subst nat_toString.simps) simp

lemma nat_toString36_step:
  "36 \<le> n \<Longrightarrow> nat_toString 36 n = nat_toString 36 (n div 36) @ [digit_char (n mod 36)]"
  by (subst nat_toString.simps) simp

lemma nat_toString36_nonempty: "nat_toString 36 n \<noteq> []"
  by (cases "n < 36") (simp_all add: nat_toString36_small nat_toString36_step)

lemma nat_toString36_length:
  "0 < k \<Longrightarrow> (length (nat_toString 36 n) \<le> k) = (n < 36 ^ k)"
proof (induction n arbitrary: k rule: less_induct)
  case (less n)
  show ?case
  proof (cases "n < 36")
    case True
    have "(36::nat) ^ 1 \<le> 36 ^ k" using less.prems by (intro power_increasing) simp_all
    then have "n < 36 ^ k" using True by simp
    then show ?thesis using True less.prems by (simp add: nat_toString36_small Suc_le_eq)
  next
    case False
    then have ge: "36 \<le> n" by simp
    then have lt: "n div 36 < n" by simp
    obtain j where k: "k = Suc j" using less.prems by (cases k) simp_all
    show ?thesis
    proof (cases j)
      case 0
      then show ?thesis using ge k nat_toString36_nonempty [of "n div 36"]
        by (simp add: nat_toString36_step)
    next
      case (Suc i)
      then have "(length (nat_toString 36 (n div 36)) \<le> j) = (n div 36 < 36 ^ j)"
        using less.IH [OF lt, of j] by simp
      moreover have "(n div 36 < 36 ^ j) = (n < 36 ^ k)"
        unfolding k by (simp add: div_less_iff_less_mult mult.commute)
      ultimately show ?thesis using ge k by (simp add: nat_toString36_step)
    qed
  qed
qed

lemma encode_byte_digits:
  "encode_byte b = [digit_char (unat b div 36), digit_char (unat b mod 36)]"
proof -
  have lt: "unat b < 256" using unsigned_less [of b] by simp
  show ?thesis
  proof (cases "unat b < 36")
    case True
    then show ?thesis
      by (simp add: encode_byte_def nat_toString36_small padStart_def digit_char_def)
  next
    case False
    then have "unat b div 36 < 36" using lt by simp
    then show ?thesis using False
      by (simp add: encode_byte_def nat_toString36_step nat_toString36_small padStart_def)
  qed
qed

lemma length_concat_encode: "length (concat (map encode_byte bs)) = 2 * length bs"
  by (induction bs) (simp_all add: encode_byte_digits)

lemma generateUniqueId_ok:
  assumes "int (length (nat_toString 36 now)) \<le> len"
    and "len \<le> maxArrayLength" and "len \<le> 65536"
  shows "generateUniqueId maxArrayLength now rnd (Some len) prefix suffix =
           Inr (join ''_''
                  ((if truthy prefix then [or_empty prefix] else [])
                   @ [nat_toString 36 now
                      @ take (nat len) (concat (map encode_byte (map rnd [0 ..< nat len])))]
                   @ (if truthy suffix then [or_empty suffix] else [])))"
proof -
  have "0 \<le> len" using assms by linarith
  then have "slice2 (concat (map encode_byte (map rnd [0 ..< nat len]))) 0 len
           = take (nat len) (concat (map encode_byte (map rnd [0 ..< nat len])))"
    by (simp add: slice2_def clamp_index_def min_def length_concat_encode)
  then show ?thesis using assms
    by (simp add: generateUniqueId_def or_default_def Let_def del: map_map)
qed

text \<open>
  Claim C5, as stated: \<open>InvalidLength\<close> is raised exactly when \<open>length\<close> is less than the
  number of base-36 digits of the time, and for every larger or equal \<open>length\<close> no error
  is raised. The last part fails: with \<open>length = 65537\<close> the length check passes and
  \<open>crypto.getRandomValues\<close> raises a QuotaExceededError.
\<close>

theorem generateUniqueId_quota_exceeded:
  "\<not> (65537 < int (length (nat_toString 36 1762168800000)))
   \<and> generateUniqueId 4294967295 1762168800000 word_of_nat (Some 65537) None None
       = Inl QuotaExceededError"
proof -
  have "int (length (nat_toString 36 1762168800000)) \<le> 8"
    using nat_toString36_length [of 8 1762168800000] by simp
  then show ?thesis
    by (simp add: generateUniqueId_def or_default_def Let_def)
qed

text \<open>
  Claim C5, amended. \<open>generateUniqueId\<close> raises \<open>InvalidLength\<close> exactly when \<open>length\<close>
  (16 when omitted) is less than the number of base-36 digits of the time in milliseconds,
  that is when \<open>length < 1\<close> or \<open>36 ^ length \<le> now\<close>; it returns a result exactly when
  \<open>length\<close> is at least that number of digits, at most 65536 and at most what the engine
  allocates.
\<close>

theorem generateUniqueId_InvalidLength_iff:
  "((generateUniqueId maxArrayLength now rnd length0 prefix suffix = Inl InvalidLength)
      = (or_default length0 16 < int (length (nat_toString 36 now))))
   \<and> ((\<exists>r. generateUniqueId maxArrayLength now rnd length0 prefix suffix = Inr r)
      = (int (length (nat_toString 36 now)) \<le> or_default length0 16
         \<and> or_default length0 16 \<le> maxArrayLength
         \<and> or_default length0 16 \<le> 65536))
   \<and> ((or_default length0 16 < int (length (nat_toString 36 now)))
      = (or_default length0 16 < 1 \<or> 36 ^ nat (or_default length0 16) \<le> now))"
proof -
  let ?len = "or_default length0 16"
  let ?L = "int (length (nat_toString 36 now))"
  let ?g = "generateUniqueId maxArrayLength now rnd length0 prefix suffix"
  have a: "(?g = Inl InvalidLength) = (?len < ?L)"
    by (simp add: generateUniqueId_def Let_def)
  have b: "(\<exists>r. ?g = Inr r) = (?L \<le> ?len \<and> ?len \<le> maxArrayLength \<and> ?len \<le> 65536)"
    by (auto simp add: generateUniqueId_def Let_def)
  have c: "(?len < ?L) = (?len < 1 \<or> 36 ^ nat ?len \<le> now)"
  proof (cases "?len < 1")
    case True
    have "1 \<le> ?L" using nat_toString36_nonempty [of now]
      by (cases "nat_toString 36 now") simp_all
    then show ?thesis using True by linarith
  next
    case False
    then have k: "0 < nat ?len" by simp
    have "(?len < ?L) = (\<not> length (nat_toString 36 now) \<le> nat ?len)"
      using False by linarith
    also have "\<dots> = (\<not> now < 36 ^ nat ?len)"
      using nat_toString36_length [OF k, of now] by simp
    finally show ?thesis using False by (simp add: not_less)
  qed
  from a b c show ?thesis by blast
qed

theorem generateUniqueId_InvalidLength_iff_witness:
  "generateUniqueId 4294967295 2821109907456 word_of_nat (Some 8) None None = Inl InvalidLength
   \<and> (\<exists>r. generateUniqueId 4294967295 1762168800000 word_of_nat (Some 8) None None = Inr r)
   \<and> (\<exists>r. generateUniqueId 4294967295 1762168800000 word_of_nat (Some 65536) None None = Inr r)"
proof -
  have L: "int (length (nat_toString 36 1762168800000)) \<le> 8"
    using nat_toString36_length [of 8 1762168800000] by simp
  have "generateUniqueId 4294967295 2821109907456 word_of_nat (Some 8) None None
          = Inl InvalidLength"
    using generateUniqueId_InvalidLength_iff
            [of 4294967295 2821109907456 word_of_nat "Some 8" None None]
    by (simp add: or_default_def)
  moreover have "\<exists>r. generateUniqueId 4294967295 1762168800000 word_of_nat (Some 8) None None
                      = Inr r"
    using L generateUniqueId_InvalidLength_iff
            [of 4294967295 1762168800000 word_of_nat "Some 8" None None]
    by (simp add: or_default_def)
  moreover have "\<exists>r. generateUniqueId 4294967295 1762168800000 word_of_nat (Some 65536) None None
                      = Inr r"
    using L generateUniqueId_InvalidLength_iff
            [of 4294967295 1762168800000 word_of_nat "Some 65536" None None,
             THEN conjunct2, THEN conjunct1]
    by (simp add: or_default_def)
  ultimately show ?thesis by blast
qed

text \<open>
  Claim C6, as stated: for every \<open>length\<close> that is at least the number of base-36 digits
  of the time, and every sequence of \<open>length\<close> bytes, the result is the join of the
  components. With \<open>length = 65537\<close> there is no result, whatever the bytes and the prefix:
  \<open>crypto.getRandomValues\<close> raises a QuotaExceededError.
\<close>

theorem generateUniqueId_format_fails_above_quota:
  "int (length (nat_toString 36 1762168800000)) \<le> 65537
   \<and> length (replicate 65537 (0 :: 8 word)) = nat 65537
   \<and> generateUniqueId 4294967295 1762168800000 ((!) (replicate 65537 0)) (Some 65537)
        (Some ''p'') None
       = Inl QuotaExceededError"
proof -
  have "int (length (nat_toString 36 1762168800000)) \<le> 8"
    using nat_toString36_length [of 8 1762168800000] by simp
  then show ?thesis
    by (simp add: generateUniqueId_def or_default_def Let_def)
qed

text \<open>
  Claim C6, amended. When \<open>length\<close> is at least the number of base-36 digits of the time,
  at most 65536 and at most what the engine allocates, and \<open>bytes\<close> are the \<open>length\<close>
  random bytes, the result is the join with \<open>_\<close> of the non-empty components among the
  prefix, the core id and the suffix (an absent prefix or suffix counts as empty); the
  core id is the timestamp in base 36 followed by the random part, which is the two
  base-36 digits of each byte, concatenated and cut to exactly \<open>length\<close> characters.
\<close>

theorem generateUniqueId_format:
  assumes "int (length (nat_toString 36 now)) \<le> len"
    and "len \<le> maxArrayLength" and "len \<le> 65536"
    and "length bytes = nat len"
  shows "let randomPart =
               take (nat len)
                 (concat (map (\<lambda>b. [digit_char (unat b div 36), digit_char (unat b mod 36)])
                            bytes));
             coreId = nat_toString 36 now @ randomPart
         in length randomPart = nat len
          \<and> generateUniqueId maxArrayLength now (\<lambda>i. bytes ! i) (Some len) prefix suffix =
              Inr (join ''_'' (filter (\<lambda>c. c \<noteq> []) [or_empty prefix, coreId, or_empty suffix]))"
proof -
  have bs: "map (\<lambda>i. bytes ! i) [0 ..< nat len] = bytes"
    using assms(4) map_nth [of bytes] by simp
  have enc: "map (\<lambda>b. [digit_char (unat b div 36), digit_char (unat b mod 36)]) bytes
             = map encode_byte bytes"
    by (simp add: encode_byte_digits)
  have len: "length (take (nat len) (concat (map encode_byte bytes))) = nat len"
    using assms(4) by (simp add: length_concat_encode)
  have p: "truthy prefix = (or_empty prefix \<noteq> [])" and s: "truthy suffix = (or_empty suffix \<noteq> [])"
    by (simp_all add: truthy_def or_empty_def split: option.splits)
  have core: "nat_toString 36 now @ take (nat len) (concat (map encode_byte bytes)) \<noteq> []"
    using nat_toString36_nonempty by simp
  show ?thesis
    unfolding Let_def enc generateUniqueId_ok [OF assms(1,2,3)] bs
    using len core by (simp add: p s)
qed

theorem generateUniqueId_format_witness:
  "int (length (nat_toString 36 1762168800000)) \<le> 10
   \<and> (10::int) \<le> 4294967295 \<and> (10::int) \<le> 65536
   \<and> length [0, 37, 74, 111, 148, 185, 222, 255, 1, 2 :: 8 word] = nat 10
   \<and> generateUniqueId 4294967295 1762168800000
        (\<lambda>i. [0, 37, 74, 111, 148, 185, 222, 255, 1, 2 :: 8 word] ! i) (Some 10) (Some ''p'') None
       = Inr (''p_'' @ nat_toString 36 1762168800000 @ ''0011223344'')"
proof -
  have h1: "int (length (nat_toString 36 1762168800000)) \<le> 10"
    using nat_toString36_length [of 10 1762168800000] by simp
  have h2: "(10::int) \<le> 4294967295" and h3: "(10::int) \<le> 65536"
    by simp_all
  have h4: "length [0, 37, 74, 111, 148, 185, 222, 255, 1, 2 :: 8 word] = nat 10"
    by simp
  have ne: "nat_toString 36 1762168800000 \<noteq> []"
    by (rule nat_toString36_nonempty)
  from generateUniqueId_format [OF h1 h2 h3 h4, of "Some ''p''" None] h1 h4 ne show ?thesis
    by (simp add: Let_def or_empty_def digit_char_def)
qed

section \<open>Properties of stringifyParams\<close>

text \<open>
  Claim C3, as stated: \<open>stringifyParams({a: [1, 2]}, {arrayType: 'comma', returnType: 'string'})\<close>
  is to be \<open>a=1%2C2\<close>. It is not: each element is encoded on its own and the encoded
  elements are joined afterwards. (Here \<open>JSON.stringify\<close> is \<open>Some\<close>: an object stands
  for its own JSON text; the input has no object.)
\<close>

theorem stringifyParams_comma_not_encoded:
  "stringifyParams Some (ParamsObject [(''a'', Array [JNumber 1, JNumber 2])])
     \<lparr>separator = None, arrayType = Some comma, serializeObjects = None,
      returnType = Some RString\<rparr>
   \<noteq> Inr (OutString ''a=1%2C2'')"
  by code_simp

text \<open>
  Claim C3, amended: the call returns \<open>a=1,2\<close>; in comma mode the comma that joins the
  encoded elements is literal.
\<close>

theorem stringifyParams_comma_literal:
  "stringifyParams stringify (ParamsObject [(''a'', Array [JNumber 1, JNumber 2])])
     \<lparr>separator = None, arrayType = Some comma, serializeObjects = None,
      returnType = Some RString\<rparr>
   = Inr (OutString ''a=1,2'')"
  by (simp add: stringifyParams_def validateParams_def or_default_def js_includes_def
      process_entry_def encodeURIComponent_def encode_unit_def uriUnreserved_def
      number_toString_def digit_char_def)

text \<open>
  Claim C8. For a \<open>params\<close> object, \<open>stringifyParams\<close> raises \<open>InvalidSeparator\<close> exactly
  when \<open>returnType\<close> is \<open>'string'\<close> and the separator (\<open>&\<close> when omitted) is empty or
  contains \<open>=\<close>; it raises no other error, and with \<open>returnType\<close> \<open>'URLSearchParams'\<close> it
  returns the pairs whatever the separator is.
\<close>

theorem stringifyParams_InvalidSeparator_iff:
  "((stringifyParams stringify (ParamsObject entries) options = Inl InvalidSeparator)
      = (returnType options = Some RString
         \<and> (or_default (separator options) ''&'' = []
            \<or> CHR ''='' \<in> set (or_default (separator options) ''&''))))
   \<and> ((\<exists>e. stringifyParams stringify (ParamsObject entries) options = Inl e)
      = (stringifyParams stringify (ParamsObject entries) options = Inl InvalidSeparator))
   \<and> (returnType options = Some RURLSearchParams \<longrightarrow>
        (\<exists>pairs. stringifyParams stringify (ParamsObject entries) options
                   = Inr (OutURLSearchParams pairs)))"
  by (auto simp add: stringifyParams_def validateParams_def js_includes_def Let_def)

theorem stringifyParams_InvalidSeparator_iff_witness:
  "stringifyParams (\<lambda>_::unit. None) (ParamsObject [])
      \<lparr>separator = Some ''='', arrayType = None, serializeObjects = None,
       returnType = Some RString\<rparr> = Inl InvalidSeparator
   \<and> returnType \<lparr>separator = Some ''='', arrayType = None, serializeObjects = None,
       returnType = Some RURLSearchParams\<rparr> = Some RURLSearchParams
   \<and> (\<exists>pairs. stringifyParams (\<lambda>_::unit. None) (ParamsObject [(''a'', Scalar (JString ''b''))])
      \<lparr>separator = Some ''='', arrayType = None, serializeObjects = None,
       returnType = Some RURLSearchParams\<rparr> = Inr (OutURLSearchParams pairs))"
  using stringifyParams_InvalidSeparator_iff [of "\<lambda>_::unit. None" "[]"
      "\<lparr>separator = Some ''='', arrayType = None, serializeObjects = None,
       returnType = Some RString\<rparr>"]
    stringifyParams_InvalidSeparator_iff [of "\<lambda>_::unit. None" "[(''a'', Scalar (JString ''b''))]"
      "\<lparr>separator = Some ''='', arrayType = None, serializeObjects = None,
       returnType = Some RURLSearchParams\<rparr>"]
  by (simp add: or_default_def)

end
